theory Spec2Isabelle
  imports Main
begin

section \<open>JavaScript strings and values\<close>

text \<open>
  The help generator of \<^verbatim>\<open>packages/command/lib/help-generator.ts\<close> only builds strings.
  A JavaScript string is modelled as a \<^typ>\<open>string\<close>, one \<^typ>\<open>char\<close> for each code unit, so
  the model covers the strings whose code units are below 256. The case mapping of
  \<^verbatim>\<open>String.prototype.toUpperCase\<close> is not modelled: it is a parameter, with the other
  functions the generator only calls.

  A value of type \<^verbatim>\<open>any\<close> (the default of an option, the arguments of \<^verbatim>\<open>format\<close>) is a
  \<open>jsvalue\<close>. A property that is absent reads as \<open>JUndefined\<close>. Numbers are the
  integer-valued ones, and \<open>JOther\<close> stands for any other value (an object, an array, a
  function), told apart by a number: the generator never computes with a value, it tests
  whether it is defined and hands it to \<^verbatim>\<open>format\<close>.
\<close>

datatype jsvalue = JUndefined | JNull | JBool bool | JNum int | JStr string | JOther nat

text \<open>\<^verbatim>\<open>typeof v !== 'undefined'\<close>\<close>

definition is_defined :: "jsvalue \<Rightarrow> bool" where
  "is_defined v = (v \<noteq> JUndefined)"

text \<open>
  An optional string (\<^verbatim>\<open>string | undefined\<close>) is a \<^typ>\<open>string option\<close>. It is truthy when it
  is present and not the empty string; \<^verbatim>\<open>v || ''\<close> is \<open>or_empty v\<close>.
\<close>

definition truthy :: "string option \<Rightarrow> bool" where
  "truthy v = (case v of None \<Rightarrow> False | Some s \<Rightarrow> s \<noteq> [])"

definition or_empty :: "string option \<Rightarrow> string" where
  "or_empty v = (if truthy v then (case v of None \<Rightarrow> [] | Some s \<Rightarrow> s) else [])"

text \<open>\<^verbatim>\<open>Array.prototype.join\<close> on an array of strings.\<close>

fun join :: "string \<Rightarrow> string list \<Rightarrow> string" where
  "join sep [] = []"
| "join sep [x] = x"
| "join sep (x # y # ys) = x @ sep @ join sep (y # ys)"

text \<open>
  \<^verbatim>\<open>s.split(c)\<close> for a separator of one character: \<open>cur\<close> is the piece being read. The
  result always has a last piece, so it is never empty.
\<close>

fun split_on :: "char \<Rightarrow> string \<Rightarrow> string \<Rightarrow> string list" where
  "split_on c cur [] = [cur]"
| "split_on c cur (x # xs) =
     (if x = c then cur # split_on c [] xs else split_on c (cur @ [x]) xs)"

definition split_lines :: "string \<Rightarrow> string list" where
  "split_lines s = split_on CHR ''\<newline>'' [] s"

text \<open>
  \<^verbatim>\<open>Array.prototype.shift\<close>: the first element, \<^verbatim>\<open>undefined\<close> on an empty array. Appended
  to a string with \<^verbatim>\<open>+\<close>, \<^verbatim>\<open>undefined\<close> reads \<^verbatim>\<open>"undefined"\<close>.
\<close>

definition shift :: "string list \<Rightarrow> string option" where
  "shift xs = (case xs of [] \<Rightarrow> None | x # _ \<Rightarrow> Some x)"

definition plus_str :: "string \<Rightarrow> string option \<Rightarrow> string" where
  "plus_str s v = s @ (case v of None \<Rightarrow> ''undefined'' | Some x \<Rightarrow> x)"

text \<open>
  \<^verbatim>\<open>flags.split( /,? +/g )\<close>: a separator is an optional comma followed by one or more
  spaces, matched greedily at the leftmost position. A comma that no space follows is
  part of the piece.
\<close>

definition is_space :: "char \<Rightarrow> bool" where
  "is_space x = (x = CHR '' '')"

function splitFlags :: "string \<Rightarrow> string \<Rightarrow> string list" where
  "splitFlags cur [] = [cur]"
| "splitFlags cur (c # cs) =
     (if c = CHR '','' \<and> (case cs of [] \<Rightarrow> False | d # _ \<Rightarrow> is_space d)
        then cur # splitFlags [] (dropWhile is_space cs)
      else if is_space c
        then cur # splitFlags [] (dropWhile is_space cs)
      else splitFlags (cur @ [c]) cs)"
  by pat_completeness auto
termination
  by (relation "measure (\<lambda>(cur, s). length s)")
     (auto simp: length_dropWhile_le less_Suc_eq_le)

text \<open>\<^verbatim>\<open>charAt\<close>, and \<^verbatim>\<open>slice\<close> with one argument.\<close>

definition charAt :: "string \<Rightarrow> nat \<Rightarrow> string" where
  "charAt s i = take 1 (drop i s)"

definition slice :: "string \<Rightarrow> nat \<Rightarrow> string" where
  "slice s i = drop i s"

section \<open>The command description\<close>

text \<open>
  \<^verbatim>\<open>IOption\<close> (with the fields of \<^verbatim>\<open>IFlagOptions\<close> the generator reads), \<^verbatim>\<open>IEnvVariable\<close> and
  \<^verbatim>\<open>IExample\<close>. The type \<open>'d\<close> is the type of an environment variable's details.
\<close>

record IOption =
  flags :: string
  opt_description :: string
  typeDefinition :: "string option"
  required :: bool
  defaultValue :: jsvalue
  depends :: "string list option"
  conflicts :: "string list option"

record 'd IEnvVariable =
  names :: "string list"
  details :: 'd
  env_description :: string

record IExample =
  ex_name :: string
  ex_description :: string

text \<open>
  \<^verbatim>\<open>BaseCommand\<close>, by its getters. \<^verbatim>\<open>getOptions\<close>, \<^verbatim>\<open>getCommands\<close> and \<^verbatim>\<open>getEnvVars\<close> take the
  flag \<^verbatim>\<open>hidden\<close>; the generator calls them with \<^verbatim>\<open>false\<close>.
\<close>

datatype 'd BaseCommand = BaseCommand
  (getName: string)
  (getVersion: string)
  (getDescription: string)
  (getArgsDefinition: "string option")
  (getAliases: "string list")
  (getOptions: "bool \<Rightarrow> IOption list")
  (getCommands: "bool \<Rightarrow> 'd BaseCommand list")
  (getEnvVars: "bool \<Rightarrow> 'd IEnvVariable list")
  (getExamples: "IExample list")

section \<open>Collaborators\<close>

text \<open>
  Modelled from the spec: \<^verbatim>\<open>Table\<close> (\<^verbatim>\<open>packages/table/lib/table.ts\<close>) is not part of the
  sources at hand. A table is its matrix of cells with the three values of the spec's
  table configuration; each chained setter stores its argument (a number, or one number
  for each column), and a value that was never set is \<open>None\<close>. What \<^verbatim>\<open>toString\<close> makes of
  a table is a parameter, below.
\<close>

datatype widths = Scalar nat | PerColumn "nat list"

record Table =
  rows :: "string list list"
  tbl_indent :: "nat option"
  tbl_padding :: "widths option"
  tbl_maxCellWidth :: "widths option"

definition Table_from :: "string list list \<Rightarrow> Table" where
  "Table_from rs =
     \<lparr>rows = rs, tbl_indent = None, tbl_padding = None, tbl_maxCellWidth = None\<rparr>"

definition indent_to :: "nat \<Rightarrow> Table \<Rightarrow> Table" where
  "indent_to n t = t\<lparr>tbl_indent := Some n\<rparr>"

definition padding :: "widths \<Rightarrow> Table \<Rightarrow> Table" where
  "padding p t = t\<lparr>tbl_padding := Some p\<rparr>"

definition maxCellWidth :: "widths \<Rightarrow> Table \<Rightarrow> Table" where
  "maxCellWidth w t = t\<lparr>tbl_maxCellWidth := Some w\<rparr>"

text \<open>
  The functions the generator imports and only calls: the six styles of
  \<^verbatim>\<open>std/fmt/colors.ts\<close>, \<^verbatim>\<open>format\<close>, the two highlighters of \<^verbatim>\<open>ArgumentsParser\<close>,
  \<^verbatim>\<open>Table.toString\<close>, and the built-in \<^verbatim>\<open>String.prototype.toUpperCase\<close>, which may change
  any letter and the length of the string. They are parameters of every definition below.
\<close>

record 'd Collaborators =
  blue :: "string \<Rightarrow> string"
  bold :: "string \<Rightarrow> string"
  dim :: "string \<Rightarrow> string"
  magenta :: "string \<Rightarrow> string"
  red :: "string \<Rightarrow> string"
  yellow :: "string \<Rightarrow> string"
  format :: "jsvalue list \<Rightarrow> string"
  highlightArguments :: "string \<Rightarrow> string"
  highlightArgumentDetails :: "'d \<Rightarrow> string"
  toString :: "Table \<Rightarrow> string"
  toUpperCase :: "string \<Rightarrow> string"

section \<open>The help generator\<close>

text \<open>
  \<^verbatim>\<open>string?.charAt( 0 ).toUpperCase() + string.slice( 1 ) ?? ''\<close>. The parameter is a string,
  so the left operand of \<^verbatim>\<open>??\<close> is a string and the default is never taken.
\<close>

definition capitalize :: "'d Collaborators \<Rightarrow> string \<Rightarrow> string" where
  "capitalize C s = toUpperCase C (charAt s 0) @ slice s 1"

record 'd HelpGenerator =
  cmd :: "'d BaseCommand"
  indent :: nat

text \<open>The constructor: \<^verbatim>\<open>indent\<close> is initialised to 2.\<close>

definition new_HelpGenerator :: "'d BaseCommand \<Rightarrow> 'd HelpGenerator" where
  "new_HelpGenerator c = \<lparr>cmd = c, indent = 2\<rparr>"

definition line :: "'d Collaborators \<Rightarrow> 'd HelpGenerator \<Rightarrow> jsvalue list \<Rightarrow> string" where
  "line C this args =
     (if args \<noteq> [] then replicate (indent this) CHR '' '' @ format C args else [])
     @ ''\<newline>''"

definition label :: "'d Collaborators \<Rightarrow> 'd HelpGenerator \<Rightarrow> string \<Rightarrow> string" where
  "label C this l = ''\<newline>'' @ line C this [JStr (bold C (l @ '':''))] @ ''\<newline>''"

text \<open>
  \<^verbatim>\<open>generateHints\<close>: the array \<^verbatim>\<open>hints\<close> grows by one \<^verbatim>\<open>push\<close> for each test that holds.
\<close>

definition generateHints :: "'d Collaborators \<Rightarrow> IOption \<Rightarrow> string" where
  "generateHints C option =
     (let hints = [];
          hints = (if required option then hints @ [yellow C ''required''] else hints);
          hints = (if is_defined (defaultValue option)
                   then hints @ [blue C (bold C ''Default: '')
                                 @ blue C (format C [defaultValue option])]
                   else hints);
          hints = (case depends option of
                     None \<Rightarrow> hints
                   | Some ds \<Rightarrow>
                       if ds \<noteq> []
                       then hints @ [red C (bold C ''depends: '')
                                     @ join '', '' (map (red C) ds)]
                       else hints);
          hints = (case conflicts option of
                     None \<Rightarrow> hints
                   | Some cs \<Rightarrow>
                       if cs \<noteq> []
                       then hints @ [red C (bold C ''conflicts: '')
                                     @ join '', '' (map (red C) cs)]
                       else hints)
      in if hints \<noteq> [] then ''('' @ join '', '' hints @ '')'' else [])"

text \<open>
  Each section builder makes a \<^verbatim>\<open>Table\<close> and returns its \<^verbatim>\<open>toString\<close>. The table a builder
  makes is a definition of its own here (\<open>headerTable\<close>, \<open>descriptionTable\<close>, ...), so that
  its rows and configuration can be stated; the builder applies \<open>toString\<close> to it.
\<close>

definition headerTable :: "'d Collaborators \<Rightarrow> 'd HelpGenerator \<Rightarrow> Table" where
  "headerTable C this =
     padding (Scalar 1)
       (indent_to (indent this)
         (Table_from
           [[bold C ''Usage:'',
             magenta C (getName (cmd this)
               @ (if truthy (getArgsDefinition (cmd this))
                  then plus_str '' '' (getArgsDefinition (cmd this)) else []))],
            [bold C ''Version:'', yellow C (''v'' @ getVersion (cmd this))]]))"

definition generateHeader :: "'d Collaborators \<Rightarrow> 'd HelpGenerator \<Rightarrow> string" where
  "generateHeader C this = ''\<newline>'' @ toString C (headerTable C this)"

definition descriptionTable :: "'d Collaborators \<Rightarrow> 'd HelpGenerator \<Rightarrow> Table" where
  "descriptionTable C this =
     padding (Scalar 1)
       (maxCellWidth (Scalar 140)
         (indent_to (indent this * 2)
           (Table_from [[getDescription (cmd this)]])))"

definition generateDescription :: "'d Collaborators \<Rightarrow> 'd HelpGenerator \<Rightarrow> string" where
  "generateDescription C this =
     (if getDescription (cmd this) = [] then []
      else label C this ''Description'' @ toString C (descriptionTable C this))"

definition optionsTable ::
  "'d Collaborators \<Rightarrow> 'd HelpGenerator \<Rightarrow> IOption list \<Rightarrow> Table" where
  "optionsTable C this options =
     (let hasTypeDefinitions = (find (\<lambda>option. truthy (typeDefinition option)) options \<noteq> None)
      in if hasTypeDefinitions then
           maxCellWidth (PerColumn [60, 60, 80, 60])
             (indent_to (indent this * 2)
               (padding (PerColumn [2, 2, 2])
                 (Table_from
                   (map (\<lambda>option.
                      [join '', '' (map (blue C) (splitFlags [] (flags option))),
                       highlightArguments C (or_empty (typeDefinition option)),
                       plus_str (red C (bold C ''-'') @ '' '')
                         (shift (split_lines (opt_description option))),
                       generateHints C option]) options))))
         else
           maxCellWidth (PerColumn [60, 80, 60])
             (indent_to (indent this * 2)
               (padding (PerColumn [2, 2])
                 (Table_from
                   (map (\<lambda>option.
                      [join '', '' (map (blue C) (splitFlags [] (flags option))),
                       plus_str (red C (bold C ''-'') @ '' '')
                         (shift (split_lines (opt_description option))),
                       generateHints C option]) options)))))"

definition generateOptions :: "'d Collaborators \<Rightarrow> 'd HelpGenerator \<Rightarrow> string" where
  "generateOptions C this =
     (let options = getOptions (cmd this) False
      in if options = [] then []
         else label C this ''Options'' @ toString C (optionsTable C this options))"

definition commandsTable ::
  "'d Collaborators \<Rightarrow> 'd HelpGenerator \<Rightarrow> 'd BaseCommand list \<Rightarrow> Table" where
  "commandsTable C this commands =
     (let hasTypeDefinitions =
            (find (\<lambda>command. truthy (getArgsDefinition command)) commands \<noteq> None)
      in if hasTypeDefinitions then
           indent_to (indent this * 2)
             (padding (PerColumn [2, 2, 2])
               (Table_from
                 (map (\<lambda>command.
                    [join '', '' (map (blue C) (getName command # getAliases command)),
                     highlightArguments C (or_empty (getArgsDefinition command)),
                     plus_str (red C (bold C ''-'') @ '' '')
                       (shift (split_lines (getDescription command)))]) commands)))
         else
           indent_to (indent this * 2)
             (padding (PerColumn [2, 2])
               (Table_from
                 (map (\<lambda>command.
                    [join '', '' (map (blue C) (getName command # getAliases command)),
                     plus_str (red C (bold C ''-'') @ '' '')
                       (shift (split_lines (getDescription command)))]) commands))))"

definition generateCommands :: "'d Collaborators \<Rightarrow> 'd HelpGenerator \<Rightarrow> string" where
  "generateCommands C this =
     (let commands = getCommands (cmd this) False
      in if commands = [] then []
         else label C this ''Commands'' @ toString C (commandsTable C this commands))"

definition envVarsTable ::
  "'d Collaborators \<Rightarrow> 'd HelpGenerator \<Rightarrow> 'd IEnvVariable list \<Rightarrow> Table" where
  "envVarsTable C this envVars =
     indent_to (indent this * 2)
       (padding (Scalar 2)
         (Table_from
           (map (\<lambda>envVar.
              [join '', '' (map (blue C) (names envVar)),
               highlightArgumentDetails C (details envVar),
               red C (bold C ''-'') @ '' '' @ env_description envVar]) envVars)))"

definition generateEnvironmentVariables ::
  "'d Collaborators \<Rightarrow> 'd HelpGenerator \<Rightarrow> string" where
  "generateEnvironmentVariables C this =
     (let envVars = getEnvVars (cmd this) False
      in if envVars = [] then []
         else label C this ''Environment variables''
              @ toString C (envVarsTable C this envVars))"

definition examplesTable ::
  "'d Collaborators \<Rightarrow> 'd HelpGenerator \<Rightarrow> IExample list \<Rightarrow> Table" where
  "examplesTable C this examples =
     maxCellWidth (Scalar 150)
       (indent_to (indent this * 2)
         (padding (Scalar 1)
           (Table_from
             (map (\<lambda>example.
                [dim C (bold C (capitalize C (ex_name example) @ '':'')),
                 ''\<newline>'' @ ex_description example]) examples))))"

definition generateExamples :: "'d Collaborators \<Rightarrow> 'd HelpGenerator \<Rightarrow> string" where
  "generateExamples C this =
     (let examples = getExamples (cmd this)
      in if examples = [] then []
         else label C this ''Examples'' @ toString C (examplesTable C this examples))"

text \<open>
  The method \<^verbatim>\<open>generate\<close> of an instance appends the six sections and a line break to
  \<^verbatim>\<open>help\<close>; the static \<^verbatim>\<open>generate\<close> calls it on a new instance.
\<close>

definition generate_this :: "'d Collaborators \<Rightarrow> 'd HelpGenerator \<Rightarrow> string" where
  "generate_this C this =
     (let help = [];
          help = help @ generateHeader C this;
          help = help @ generateDescription C this;
          help = help @ generateOptions C this;
          help = help @ generateCommands C this;
          help = help @ generateEnvironmentVariables C this;
          help = help @ generateExamples C this;
          help = help @ ''\<newline>''
      in help)"

definition generate :: "'d Collaborators \<Rightarrow> 'd BaseCommand \<Rightarrow> string" where
  "generate C c = generate_this C (new_HelpGenerator c)"

section \<open>An instance of the collaborators\<close>

text \<open>
  To evaluate the generator on examples the collaborators need values. \<open>plain\<close> is the
  simplest instance: the styles return their argument (colours switched off), \<open>format\<close>
  writes its arguments separated by spaces, the highlighters return their argument,
  \<open>toString\<close> writes each row on a line of its own, after the indentation, its cells
  separated by a space, and \<open>toUpperCase\<close> changes the letters \<^verbatim>\<open>a\<close> to \<^verbatim>\<open>z\<close> only. These values stand in for collaborators whose code is not part of
  the sources at hand, and say nothing about them: the theorems below hold for every
  instance, and \<open>plain\<close> only serves to evaluate them on concrete commands.
\<close>

definition ascii_upper :: "char \<Rightarrow> char" where
  "ascii_upper c =
     (let n = (of_char c :: nat) in if 97 \<le> n \<and> n \<le> 122 then char_of (n - 32) else c)"

fun digits :: "nat \<Rightarrow> string" where
  "digits n =
     (if n < 10 then [char_of (48 + n)] else digits (n div 10) @ [char_of (48 + n mod 10)])"

fun show_value :: "jsvalue \<Rightarrow> string" where
  "show_value JUndefined = ''undefined''"
| "show_value JNull = ''null''"
| "show_value (JBool b) = (if b then ''true'' else ''false'')"
| "show_value (JNum n) = (if n < 0 then ''-'' @ digits (nat (- n)) else digits (nat n))"
| "show_value (JStr s) = s"
| "show_value (JOther k) = ''[object Object]''"

definition plain_toString :: "Table \<Rightarrow> string" where
  "plain_toString t =
     join ''\<newline>''
       (map (\<lambda>r. replicate (case tbl_indent t of None \<Rightarrow> 0 | Some n \<Rightarrow> n) CHR '' ''
                  @ join '' '' r) (rows t))"

definition plain :: "string Collaborators" where
  "plain =
     \<lparr>blue = (\<lambda>s. s), bold = (\<lambda>s. s), dim = (\<lambda>s. s), magenta = (\<lambda>s. s),
      red = (\<lambda>s. s), yellow = (\<lambda>s. s),
      format = (\<lambda>vs. join '' '' (map show_value vs)),
      highlightArguments = (\<lambda>s. s), highlightArgumentDetails = (\<lambda>s. s),
      toString = plain_toString, toUpperCase = map ascii_upper\<rparr>"

section \<open>The specification's wording\<close>

text \<open>
  The hint of an option as the specification composes it: four optional parts in a fixed
  order, each present on its own condition, joined and put in parentheses when there is
  at least one. An absent list of names counts as an empty one.
\<close>

definition names_of :: "string list option \<Rightarrow> string list" where
  "names_of v = (case v of None \<Rightarrow> [] | Some xs \<Rightarrow> xs)"

definition hints_spec :: "'d Collaborators \<Rightarrow> IOption \<Rightarrow> string" where
  "hints_spec C option =
     (let parts =
            (if required option then [yellow C ''required''] else [])
          @ (if defaultValue option \<noteq> JUndefined
             then [blue C (bold C ''Default: '') @ blue C (format C [defaultValue option])]
             else [])
          @ (if names_of (depends option) \<noteq> []
             then [red C (bold C ''depends: '')
                   @ join '', '' (map (red C) (names_of (depends option)))]
             else [])
          @ (if names_of (conflicts option) \<noteq> []
             then [red C (bold C ''conflicts: '')
                   @ join '', '' (map (red C) (names_of (conflicts option)))]
             else [])
      in if parts = [] then [] else ''('' @ join '', '' parts @ '')'')"

text \<open>The first line of a text: what stands before its first line break.\<close>

definition first_line :: "string \<Rightarrow> string" where
  "first_line s = takeWhile (\<lambda>x. x \<noteq> CHR ''\<newline>'') s"

text \<open>
  The cells of the two condensed tables, as the specification names them: the flags of an
  option, the name and aliases of a sub-command, and the dash with the first line of a
  description.
\<close>

definition flags_cell :: "'d Collaborators \<Rightarrow> IOption \<Rightarrow> string" where
  "flags_cell C option = join '', '' (map (blue C) (splitFlags [] (flags option)))"

definition names_cell :: "'d Collaborators \<Rightarrow> 'd BaseCommand \<Rightarrow> string" where
  "names_cell C command = join '', '' (map (blue C) (getName command # getAliases command))"

definition description_cell :: "'d Collaborators \<Rightarrow> string \<Rightarrow> string" where
  "description_cell C d = red C (bold C ''-'') @ '' '' @ first_line d"







section \<open>Example inputs\<close>

definition example_option :: IOption where
  "example_option =
     \<lparr>flags = ''-p, --port'', opt_description = ''Port to use\<newline>(a number)'',
      typeDefinition = Some ''<port:number>'', required = True, defaultValue = JNum 0,
      depends = Some [''foo''], conflicts = Some [''bar'']\<rparr>"

definition untyped_option :: IOption where
  "untyped_option =
     \<lparr>flags = ''-h, --help'', opt_description = ''Show this help\<newline>and exit'',
      typeDefinition = Some [], required = False, defaultValue = JUndefined,
      depends = None, conflicts = Some []\<rparr>"

definition example_sub :: "string BaseCommand" where
  "example_sub =
     BaseCommand ''serve'' ''1.0.0'' ''Start the server\<newline>in the foreground''
       (Some ''<dir>'') [''s''] (\<lambda>hidden. []) (\<lambda>hidden. []) (\<lambda>hidden. []) []"

definition untyped_sub :: "string BaseCommand" where
  "untyped_sub =
     BaseCommand ''stop'' ''1.0.0'' ''Stop the server\<newline>at once''
       None [] (\<lambda>hidden. []) (\<lambda>hidden. []) (\<lambda>hidden. []) []"

definition example_command :: "string BaseCommand" where
  "example_command =
     BaseCommand ''app'' ''1.0.0'' ''A tool'' (Some ''<file>'') []
       (\<lambda>hidden. [example_option, untyped_option])
       (\<lambda>hidden. [example_sub, untyped_sub])
       (\<lambda>hidden. [\<lparr>names = [''APP_HOME''], details = ''<path>'',
                     env_description = ''Home directory''\<rparr>])
       [\<lparr>ex_name = ''basic'', ex_description = ''do the thing''\<rparr>]"

definition bare_command :: "string BaseCommand" where
  "bare_command =
     BaseCommand ''app'' ''1.0.0'' [] None []
       (\<lambda>hidden. []) (\<lambda>hidden. []) (\<lambda>hidden. []) []"

section \<open>Properties of the string helpers\<close>

lemma split_on_hd: "\<exists>rest. split_on c cur s = (cur @ takeWhile (\<lambda>x. x \<noteq> c) s) # rest"
proof (induction s arbitrary: cur)
  case Nil
  show ?case by simp
next
  case (Cons a s)
  show ?case
  proof (cases "a = c")
    case True
    then show ?thesis by simp
  next
    case False
    with Cons [of "cur @ [a]"] show ?thesis by simp
  qed
qed

lemma shift_split_lines: "shift (split_lines s) = Some (first_line s)"
  using split_on_hd [of "CHR ''\<newline>''" "[]" s]
  by (auto simp: shift_def split_lines_def first_line_def)

lemma dash_first_line:
  "plus_str (red C (bold C ''-'') @ '' '') (shift (split_lines d)) = description_cell C d"
  by (simp add: plus_str_def shift_split_lines description_cell_def)

lemma first_line_append:
  "CHR ''\<newline>'' \<notin> set l \<Longrightarrow> first_line (l @ CHR ''\<newline>'' # rest) = l"
  by (induction l) (auto simp: first_line_def)

lemma find_set: "(find P xs \<noteq> None) = (\<exists>x\<in>set xs. P x)"
  by (auto simp: find_None_iff)

lemma rows_simps:
  "rows (Table_from rs) = rs"
  "rows (indent_to n t) = rows t"
  "rows (padding p t) = rows t"
  "rows (maxCellWidth w t) = rows t"
  by (simp_all add: Table_from_def indent_to_def padding_def maxCellWidth_def)

lemma rows_optionsTable:
  "rows (optionsTable C this options) =
     (if (\<exists>option\<in>set options. truthy (typeDefinition option))
      then map (\<lambda>option.
                  [flags_cell C option,
                   highlightArguments C (or_empty (typeDefinition option)),
                   description_cell C (opt_description option),
                   generateHints C option]) options
      else map (\<lambda>option.
                  [flags_cell C option,
                   description_cell C (opt_description option),
                   generateHints C option]) options)"
proof (cases "\<exists>option\<in>set options. truthy (typeDefinition option)")
  case True
  then have "find (\<lambda>option. truthy (typeDefinition option)) options \<noteq> None"
    by (simp only: find_set)
  with True show ?thesis
    by (simp add: optionsTable_def rows_simps dash_first_line flags_cell_def)
next
  case False
  then have "find (\<lambda>option. truthy (typeDefinition option)) options = None"
    using find_set [of "\<lambda>option. truthy (typeDefinition option)" options] by blast
  with False show ?thesis
    by (simp add: optionsTable_def rows_simps dash_first_line flags_cell_def)
qed

lemma rows_commandsTable:
  "rows (commandsTable C this commands) =
     (if (\<exists>command\<in>set commands. truthy (getArgsDefinition command))
      then map (\<lambda>command.
                  [names_cell C command,
                   highlightArguments C (or_empty (getArgsDefinition command)),
                   description_cell C (getDescription command)]) commands
      else map (\<lambda>command.
                  [names_cell C command,
                   description_cell C (getDescription command)]) commands)"
proof (cases "\<exists>command\<in>set commands. truthy (getArgsDefinition command)")
  case True
  then have "find (\<lambda>command. truthy (getArgsDefinition command)) commands \<noteq> None"
    by (simp only: find_set)
  with True show ?thesis
    by (simp add: commandsTable_def rows_simps dash_first_line names_cell_def)
next
  case False
  then have "find (\<lambda>command. truthy (getArgsDefinition command)) commands = None"
    using find_set [of "\<lambda>command. truthy (getArgsDefinition command)" commands] by blast
  with False show ?thesis
    by (simp add: commandsTable_def rows_simps dash_first_line names_cell_def)
qed


lemma rows_headerTable:
  "rows (headerTable C this) =
     [[bold C ''Usage:'',
       magenta C (getName (cmd this)
         @ (case getArgsDefinition (cmd this) of
              None \<Rightarrow> [] | Some a \<Rightarrow> if a = [] then [] else CHR '' '' # a))],
      [bold C ''Version:'', yellow C (CHR ''v'' # getVersion (cmd this))]]"
  by (simp add: headerTable_def rows_simps truthy_def plus_str_def split: option.splits)

section \<open>Hints\<close>

text \<open>
  C1: for every option the hint string is built from four parts in a fixed order, each on
  its own condition: the word required when the option is required, the default with its
  formatted value when the default is defined (a test of definedness: 0, false and the
  empty string are defined), the dependency names when there are any, the conflict names
  when there are any. With at least one part the result is the parts joined by a comma
  and a space, in parentheses; with none it is the empty string. The sequence of pushes of
  \<open>generateHints\<close> computes exactly \<open>hints_spec\<close>.
\<close>

theorem generateHints_spec: "generateHints C option = hints_spec C option"
  by (simp add: generateHints_def hints_spec_def names_of_def is_defined_def Let_def
      split: option.splits)

theorem generateHints_spec_witness:
  "generateHints plain example_option
     = ''(required, Default: 0, depends: foo, conflicts: bar)''
   \<and> generateHints plain (example_option\<lparr>required := False, defaultValue := JBool False,
        depends := None, conflicts := None\<rparr>) = ''(Default: false)''
   \<and> generateHints plain (example_option\<lparr>required := False, defaultValue := JStr [],
        depends := None, conflicts := None\<rparr>) = ''(Default: )''
   \<and> generateHints plain untyped_option = []"
proof -
  have "hints_spec plain example_option
      = ''(required, Default: 0, depends: foo, conflicts: bar)''"
    by code_simp
  moreover have "hints_spec plain (example_option\<lparr>required := False,
      defaultValue := JBool False, depends := None, conflicts := None\<rparr>) = ''(Default: false)''"
    by code_simp
  moreover have "hints_spec plain (example_option\<lparr>required := False,
      defaultValue := JStr [], depends := None, conflicts := None\<rparr>) = ''(Default: )''"
    by code_simp
  moreover have "hints_spec plain untyped_option = []"
    by code_simp
  ultimately show ?thesis
    by (simp only: generateHints_spec)
qed

section \<open>Sections and their inclusion\<close>

text \<open>
  C2: a section whose data is empty contributes the empty string: no description, no
  visible option, no visible sub-command, no environment variable or no example means
  that the section's builder returns nothing, neither label nor line break. The help text
  is the concatenation of the six sections and one final line break, so an empty section
  leaves no trace in it.
\<close>

theorem sections_only_when_nonempty:
  "(getDescription c = [] \<longrightarrow> generateDescription C (new_HelpGenerator c) = [])
   \<and> (getOptions c False = [] \<longrightarrow> generateOptions C (new_HelpGenerator c) = [])
   \<and> (getCommands c False = [] \<longrightarrow> generateCommands C (new_HelpGenerator c) = [])
   \<and> (getEnvVars c False = [] \<longrightarrow>
        generateEnvironmentVariables C (new_HelpGenerator c) = [])
   \<and> (getExamples c = [] \<longrightarrow> generateExamples C (new_HelpGenerator c) = [])
   \<and> generate C c =
       generateHeader C (new_HelpGenerator c)
       @ generateDescription C (new_HelpGenerator c)
       @ generateOptions C (new_HelpGenerator c)
       @ generateCommands C (new_HelpGenerator c)
       @ generateEnvironmentVariables C (new_HelpGenerator c)
       @ generateExamples C (new_HelpGenerator c)
       @ ''\<newline>''"
proof -
  have c: "cmd (new_HelpGenerator c) = c"
    by (simp add: new_HelpGenerator_def)
  have "getDescription c = [] \<longrightarrow> generateDescription C (new_HelpGenerator c) = []"
    by (simp add: generateDescription_def c)
  moreover have "getOptions c False = [] \<longrightarrow> generateOptions C (new_HelpGenerator c) = []"
    by (simp add: generateOptions_def c)
  moreover have "getCommands c False = [] \<longrightarrow> generateCommands C (new_HelpGenerator c) = []"
    by (simp add: generateCommands_def c)
  moreover have "getEnvVars c False = [] \<longrightarrow>
      generateEnvironmentVariables C (new_HelpGenerator c) = []"
    by (simp add: generateEnvironmentVariables_def c)
  moreover have "getExamples c = [] \<longrightarrow> generateExamples C (new_HelpGenerator c) = []"
    by (simp add: generateExamples_def c)
  moreover have "generate C c =
       generateHeader C (new_HelpGenerator c)
       @ generateDescription C (new_HelpGenerator c)
       @ generateOptions C (new_HelpGenerator c)
       @ generateCommands C (new_HelpGenerator c)
       @ generateEnvironmentVariables C (new_HelpGenerator c)
       @ generateExamples C (new_HelpGenerator c)
       @ ''\<newline>''"
    by (simp add: generate_def generate_this_def)
  ultimately show ?thesis by blast
qed

lemma generateHeader_bare:
  "generateHeader plain (new_HelpGenerator bare_command)
     = ''\<newline>  Usage: app\<newline>  Version: v1.0.0''"
  by code_simp

theorem sections_only_when_nonempty_witness:
  "getDescription bare_command = [] \<and> getOptions bare_command False = []
   \<and> getCommands bare_command False = [] \<and> getEnvVars bare_command False = []
   \<and> getExamples bare_command = []
   \<and> generateDescription plain (new_HelpGenerator bare_command) = []
   \<and> generateOptions plain (new_HelpGenerator bare_command) = []
   \<and> generateCommands plain (new_HelpGenerator bare_command) = []
   \<and> generateEnvironmentVariables plain (new_HelpGenerator bare_command) = []
   \<and> generateExamples plain (new_HelpGenerator bare_command) = []
   \<and> generate plain bare_command = ''\<newline>  Usage: app\<newline>  Version: v1.0.0\<newline>''"
  using sections_only_when_nonempty [of bare_command plain]
  by (simp add: bare_command_def [symmetric] generateHeader_bare) (simp add: bare_command_def)

text \<open>
  C9: the help text begins with a line break, the one that opens the header, and ends
  with a line break, the one appended after the last section, whatever sections there
  are.
\<close>

theorem generate_newlines:
  "2 \<le> length (generate C c) \<and> hd (generate C c) = CHR ''\<newline>''
   \<and> last (generate C c) = CHR ''\<newline>''"
  by (simp add: generate_def generate_this_def generateHeader_def)

theorem generate_newlines_witness:
  "hd (generate plain example_command) = CHR ''\<newline>''
   \<and> last (generate plain example_command) = CHR ''\<newline>''
   \<and> hd (generate plain bare_command) = CHR ''\<newline>''
   \<and> last (generate plain bare_command) = CHR ''\<newline>''"
  using generate_newlines [of plain example_command] generate_newlines [of plain bare_command]
  by simp

section \<open>The Options and Commands tables\<close>

text \<open>
  C3: the rows of the Options table have four cells (flags, highlighted type definition,
  dash and first line of the description, hints) when some option of the list has a
  type definition that is not empty, and three cells (no type definition) otherwise. The
  rows of the Commands table have three cells (names, highlighted arguments definition,
  dash and first line of the description) when some sub-command of the list has an
  arguments definition that is not empty, and two cells otherwise. The lists are the
  visible options and sub-commands: with at least one of them, the section is its label
  followed by the rendering of this table.
\<close>

theorem table_columns:
  "rows (optionsTable C this options) =
     (if (\<exists>option\<in>set options. truthy (typeDefinition option))
      then map (\<lambda>option.
                  [flags_cell C option,
                   highlightArguments C (or_empty (typeDefinition option)),
                   description_cell C (opt_description option),
                   generateHints C option]) options
      else map (\<lambda>option.
                  [flags_cell C option,
                   description_cell C (opt_description option),
                   generateHints C option]) options)
   \<and> (\<forall>r\<in>set (rows (optionsTable C this options)).
         length r = (if (\<exists>option\<in>set options. truthy (typeDefinition option)) then 4 else 3))
   \<and> rows (commandsTable C this commands) =
     (if (\<exists>command\<in>set commands. truthy (getArgsDefinition command))
      then map (\<lambda>command.
                  [names_cell C command,
                   highlightArguments C (or_empty (getArgsDefinition command)),
                   description_cell C (getDescription command)]) commands
      else map (\<lambda>command.
                  [names_cell C command,
                   description_cell C (getDescription command)]) commands)
   \<and> (\<forall>r\<in>set (rows (commandsTable C this commands)).
         length r =
           (if (\<exists>command\<in>set commands. truthy (getArgsDefinition command)) then 3 else 2))
   \<and> (getOptions (cmd this) False \<noteq> [] \<longrightarrow>
        generateOptions C this
          = label C this ''Options''
            @ toString C (optionsTable C this (getOptions (cmd this) False)))
   \<and> (getCommands (cmd this) False \<noteq> [] \<longrightarrow>
        generateCommands C this
          = label C this ''Commands''
            @ toString C (commandsTable C this (getCommands (cmd this) False)))"
proof -
  have "getOptions (cmd this) False \<noteq> [] \<longrightarrow>
        generateOptions C this
          = label C this ''Options''
            @ toString C (optionsTable C this (getOptions (cmd this) False))"
    by (simp add: generateOptions_def)
  moreover have "getCommands (cmd this) False \<noteq> [] \<longrightarrow>
        generateCommands C this
          = label C this ''Commands''
            @ toString C (commandsTable C this (getCommands (cmd this) False))"
    by (simp add: generateCommands_def)
  moreover
  have "\<forall>r\<in>set (rows (optionsTable C this options)).
         length r = (if (\<exists>option\<in>set options. truthy (typeDefinition option)) then 4 else 3)"
    unfolding rows_optionsTable by auto
  moreover have "\<forall>r\<in>set (rows (commandsTable C this commands)).
         length r =
           (if (\<exists>command\<in>set commands. truthy (getArgsDefinition command)) then 3 else 2)"
    unfolding rows_commandsTable by auto
  ultimately show ?thesis
    using rows_optionsTable [of C this options] rows_commandsTable [of C this commands]
    by blast
qed


theorem table_columns_witness:
  "rows (optionsTable plain (new_HelpGenerator example_command) [example_option, untyped_option])
     = [[''-p, --port'', ''<port:number>'', ''- Port to use'',
         ''(required, Default: 0, depends: foo, conflicts: bar)''],
        [''-h, --help'', [], ''- Show this help'', []]]
   \<and> rows (optionsTable plain (new_HelpGenerator example_command) [untyped_option])
     = [[''-h, --help'', ''- Show this help'', []]]
   \<and> rows (commandsTable plain (new_HelpGenerator example_command) [example_sub, untyped_sub])
     = [[''serve, s'', ''<dir>'', ''- Start the server''],
        [''stop'', [], ''- Stop the server'']]
   \<and> rows (commandsTable plain (new_HelpGenerator example_command) [untyped_sub])
     = [[''stop'', ''- Stop the server'']]"
proof -
  have t: "truthy (typeDefinition example_option)" "\<not> truthy (typeDefinition untyped_option)"
    "truthy (getArgsDefinition example_sub)" "\<not> truthy (getArgsDefinition untyped_sub)"
    by code_simp+
  have o1: "[flags_cell plain example_option,
             highlightArguments plain (or_empty (typeDefinition example_option)),
             description_cell plain (opt_description example_option),
             generateHints plain example_option]
          = [''-p, --port'', ''<port:number>'', ''- Port to use'',
             ''(required, Default: 0, depends: foo, conflicts: bar)'']"
    by code_simp
  have o2: "[flags_cell plain untyped_option,
             highlightArguments plain (or_empty (typeDefinition untyped_option)),
             description_cell plain (opt_description untyped_option),
             generateHints plain untyped_option]
          = [''-h, --help'', [], ''- Show this help'', []]"
    by code_simp
  have c1: "[names_cell plain example_sub,
             highlightArguments plain (or_empty (getArgsDefinition example_sub)),
             description_cell plain (getDescription example_sub)]
          = [''serve, s'', ''<dir>'', ''- Start the server'']"
    by code_simp
  have c2: "[names_cell plain untyped_sub,
             highlightArguments plain (or_empty (getArgsDefinition untyped_sub)),
             description_cell plain (getDescription untyped_sub)]
          = [''stop'', [], ''- Stop the server'']"
    by code_simp
  show ?thesis
    using table_columns [of plain "new_HelpGenerator example_command"
        "[example_option, untyped_option]" "[example_sub, untyped_sub]"]
      table_columns [of plain "new_HelpGenerator example_command"
        "[untyped_option]" "[untyped_sub]"]
      t o1 o2 c1 c2
    by simp
qed

text \<open>
  C4: when the description of an option or of a sub-command has a line break, the
  description cell of its row holds the dash, a space and the text before the first line
  break; what follows the line break is dropped. The cell is the third of the row in the
  layout with a type (or arguments) definition column and the second otherwise.
\<close>

theorem description_first_line_only:
  assumes "CHR ''\<newline>'' \<notin> set l"
  shows "(\<forall>options i. i < length options
            \<longrightarrow> opt_description (options ! i) = l @ CHR ''\<newline>'' # rest
            \<longrightarrow> rows (optionsTable C this options) ! i
                  ! (if (\<exists>option\<in>set options. truthy (typeDefinition option)) then 2 else 1)
                = red C (bold C ''-'') @ '' '' @ l)
       \<and> (\<forall>commands i. i < length commands
            \<longrightarrow> getDescription (commands ! i) = l @ CHR ''\<newline>'' # rest
            \<longrightarrow> rows (commandsTable C this commands) ! i
                  ! (if (\<exists>command\<in>set commands. truthy (getArgsDefinition command))
                     then 2 else 1)
                = red C (bold C ''-'') @ '' '' @ l)"
proof -
  have cell: "description_cell C (l @ CHR ''\<newline>'' # rest) = red C (bold C ''-'') @ '' '' @ l"
    using assms by (simp add: description_cell_def first_line_append)
  have "rows (optionsTable C this options) ! i
          ! (if (\<exists>option\<in>set options. truthy (typeDefinition option)) then 2 else 1)
        = red C (bold C ''-'') @ '' '' @ l"
    if "i < length options" and "opt_description (options ! i) = l @ CHR ''\<newline>'' # rest"
    for options :: "IOption list" and i
    using that cell by (simp add: rows_optionsTable)
  moreover have "rows (commandsTable C this commands) ! i
          ! (if (\<exists>command\<in>set commands. truthy (getArgsDefinition command)) then 2 else 1)
        = red C (bold C ''-'') @ '' '' @ l"
    if "i < length commands" and "getDescription (commands ! i) = l @ CHR ''\<newline>'' # rest"
    for commands :: "'a BaseCommand list" and i
    using that cell by (simp add: rows_commandsTable)
  ultimately show ?thesis by blast
qed

theorem description_first_line_only_witness:
  "CHR ''\<newline>'' \<notin> set ''Port to use''
   \<and> opt_description ([example_option, untyped_option] ! 0)
       = ''Port to use'' @ CHR ''\<newline>'' # ''(a number)''
   \<and> rows (optionsTable plain (new_HelpGenerator example_command)
         [example_option, untyped_option]) ! 0 ! 2 = ''- Port to use''
   \<and> getDescription ([untyped_sub] ! 0) = ''Stop the server'' @ CHR ''\<newline>'' # ''at once''
   \<and> rows (commandsTable plain (new_HelpGenerator example_command) [untyped_sub]) ! 0 ! 1
       = ''- Stop the server''"
proof -
  have n1: "CHR ''\<newline>'' \<notin> set ''Port to use''" by simp
  have n2: "CHR ''\<newline>'' \<notin> set ''Stop the server''" by simp
  have d1: "opt_description ([example_option, untyped_option] ! 0)
       = ''Port to use'' @ CHR ''\<newline>'' # ''(a number)''"
    by (simp add: example_option_def)
  have d2: "getDescription ([untyped_sub] ! 0) = ''Stop the server'' @ CHR ''\<newline>'' # ''at once''"
    by (simp add: untyped_sub_def)
  have t: "(\<exists>option\<in>set [example_option, untyped_option]. truthy (typeDefinition option)) = True"
    by (simp add: example_option_def truthy_def)
  have u: "(\<exists>command\<in>set [untyped_sub]. truthy (getArgsDefinition command)) = False"
    by (simp add: untyped_sub_def truthy_def)
  have p: "red plain (bold plain ''-'') @ '' '' @ l = ''- '' @ l" for l
    by (simp add: plain_def)
  have i1: "(0::nat) < length [example_option, untyped_option]" by simp
  have i2: "(0::nat) < length [untyped_sub]" by simp
  note a = description_first_line_only [OF n1, where rest = "''(a number)''" and C = plain
      and this = "new_HelpGenerator example_command", THEN conjunct1, rule_format, OF i1 d1]
  note b = description_first_line_only [OF n2, where rest = "''at once''" and C = plain
      and this = "new_HelpGenerator example_command", THEN conjunct2, rule_format, OF i2 d2]
  have "rows (optionsTable plain (new_HelpGenerator example_command)
         [example_option, untyped_option]) ! 0 ! 2 = ''- Port to use''"
    using a unfolding t p by simp
  moreover have "rows (commandsTable plain (new_HelpGenerator example_command) [untyped_sub]) ! 0 ! 1
       = ''- Stop the server''"
    using b unfolding u p by simp
  ultimately show ?thesis using n1 d1 d2 by blast
qed

section \<open>The Description section\<close>

text \<open>
  C6: when the description of the command is not empty, the Description section is its
  label followed by the rendering of a table of one row with one cell, the description,
  whose maximum cell width is set to 140 for every column.
\<close>

theorem description_section:
  assumes "getDescription (cmd this) \<noteq> []"
  shows "generateDescription C this
           = label C this ''Description'' @ toString C (descriptionTable C this)
         \<and> rows (descriptionTable C this) = [[getDescription (cmd this)]]
         \<and> tbl_maxCellWidth (descriptionTable C this) = Some (Scalar 140)"
  using assms
  by (simp add: generateDescription_def descriptionTable_def Table_from_def indent_to_def
      padding_def maxCellWidth_def)

theorem description_section_witness:
  "getDescription (cmd (new_HelpGenerator example_command)) \<noteq> []
   \<and> generateDescription plain (new_HelpGenerator example_command)
       = ''\<newline>  Description:\<newline>\<newline>    A tool''
   \<and> rows (descriptionTable plain (new_HelpGenerator example_command)) = [[''A tool'']]
   \<and> tbl_maxCellWidth (descriptionTable plain (new_HelpGenerator example_command))
       = Some (Scalar 140)"
proof -
  have d: "getDescription (cmd (new_HelpGenerator example_command)) = ''A tool''"
    by (simp add: new_HelpGenerator_def example_command_def)
  have r: "label plain (new_HelpGenerator example_command) ''Description''
           @ toString plain (descriptionTable plain (new_HelpGenerator example_command))
         = ''\<newline>  Description:\<newline>\<newline>    A tool''"
    by code_simp
  show ?thesis
    using description_section [of "new_HelpGenerator example_command" plain] d r by simp
qed

section \<open>The Examples section\<close>














section \<open>The header\<close>

text \<open>
  C8: the header is always the first part of the help text. It is a line break followed
  by the rendering of a table of exactly two rows: the cells Usage: and the name of the
  command followed by its arguments definition, and the cells Version: and the version
  with the letter v before it.
\<close>

theorem header_rows:
  "rows (headerTable C (new_HelpGenerator c)) =
     [[bold C ''Usage:'',
       magenta C (getName c
         @ (case getArgsDefinition c of
              None \<Rightarrow> [] | Some a \<Rightarrow> if a = [] then [] else CHR '' '' # a))],
      [bold C ''Version:'', yellow C (CHR ''v'' # getVersion c)]]
   \<and> generateHeader C (new_HelpGenerator c)
       = CHR ''\<newline>'' # toString C (headerTable C (new_HelpGenerator c))
   \<and> (\<exists>rest. generate C c = generateHeader C (new_HelpGenerator c) @ rest)"
proof -
  have "cmd (new_HelpGenerator c) = c"
    by (simp add: new_HelpGenerator_def)
  then have "rows (headerTable C (new_HelpGenerator c)) =
     [[bold C ''Usage:'',
       magenta C (getName c
         @ (case getArgsDefinition c of
              None \<Rightarrow> [] | Some a \<Rightarrow> if a = [] then [] else CHR '' '' # a))],
      [bold C ''Version:'', yellow C (CHR ''v'' # getVersion c)]]"
    using rows_headerTable [of C "new_HelpGenerator c"] by simp
  moreover have "generateHeader C (new_HelpGenerator c)
       = CHR ''\<newline>'' # toString C (headerTable C (new_HelpGenerator c))"
    by (simp add: generateHeader_def)
  moreover have "\<exists>rest. generate C c = generateHeader C (new_HelpGenerator c) @ rest"
    by (simp add: generate_def generate_this_def)
  ultimately show ?thesis by blast
qed

theorem header_rows_witness:
  "rows (headerTable plain (new_HelpGenerator example_command))
     = [[''Usage:'', ''app <file>''], [''Version:'', ''v1.0.0'']]
   \<and> generateHeader plain (new_HelpGenerator example_command)
     = ''\<newline>  Usage: app <file>\<newline>  Version: v1.0.0''"
proof -
  have "plain_toString (headerTable plain (new_HelpGenerator example_command))
      = ''  Usage: app <file>\<newline>  Version: v1.0.0''"
    by code_simp
  then show ?thesis
    using header_rows [of plain example_command]
    by (simp add: example_command_def plain_def)
qed

text \<open>
  C10: when the arguments definition of the command is absent or empty, the second cell
  of the Usage row is the name of the command alone, with no space after it; when it is
  not empty, the cell is the name, one space and the arguments definition.
\<close>

theorem usage_cell:
  "(getArgsDefinition (cmd this) = None \<or> getArgsDefinition (cmd this) = Some []
      \<longrightarrow> rows (headerTable C this) ! 0 ! 1 = magenta C (getName (cmd this)))
   \<and> (\<forall>a. getArgsDefinition (cmd this) = Some a \<and> a \<noteq> []
      \<longrightarrow> rows (headerTable C this) ! 0 ! 1 = magenta C (getName (cmd this) @ '' '' @ a))"
  by (auto simp: rows_headerTable)

theorem usage_cell_witness:
  "getArgsDefinition (cmd (new_HelpGenerator bare_command)) = None
   \<and> rows (headerTable plain (new_HelpGenerator bare_command)) ! 0 ! 1 = ''app''
   \<and> getArgsDefinition (cmd (new_HelpGenerator (BaseCommand ''app'' ''1.0.0'' [] (Some []) []
          (\<lambda>hidden. []) (\<lambda>hidden. []) (\<lambda>hidden. []) []))) = Some []
   \<and> rows (headerTable plain (new_HelpGenerator (BaseCommand ''app'' ''1.0.0'' [] (Some []) []
          (\<lambda>hidden. []) (\<lambda>hidden. []) (\<lambda>hidden. []) []))) ! 0 ! 1 = ''app''
   \<and> getArgsDefinition (cmd (new_HelpGenerator example_command)) = Some ''<file>''
   \<and> rows (headerTable plain (new_HelpGenerator example_command)) ! 0 ! 1 = ''app <file>''"
  using usage_cell [of "new_HelpGenerator bare_command" plain]
    usage_cell [of "new_HelpGenerator (BaseCommand ''app'' ''1.0.0'' [] (Some []) []
          (\<lambda>hidden. []) (\<lambda>hidden. []) (\<lambda>hidden. []) [])" plain]
    usage_cell [of "new_HelpGenerator example_command" plain]
  by (simp add: new_HelpGenerator_def bare_command_def example_command_def plain_def)

end
